theory Spec2Isabelle
  imports Main "HOL-Library.Word" "HOL-Library.Signed_Division"
begin

section \<open>The libuv platform stubs for WASI\<close>

text \<open>
  A shallow embedding of the platform backend \<^verbatim>\<open>libuv WASI stubs\<close>: nine C functions
  that stand in for the readiness poller, the descriptor bookkeeping, process
  duplication, interface lookup and argument setup of libuv on WASI, which has none
  of them. Every function takes the world it runs in and returns the world it leaves,
  beside its C result.
\<close>

subsection \<open>C integers\<close>

text \<open>
  \<^verbatim>\<open>int\<close> and \<^verbatim>\<open>unsigned int\<close> are 32 bits wide. A word is read as a signed value with
  \<open>sint\<close>. \<^verbatim>\<open>/\<close> and \<^verbatim>\<open>%\<close> on \<^verbatim>\<open>int\<close> truncate towards zero (\<open>sdiv\<close> and \<open>smod\<close> on the
  signed values); \<^verbatim>\<open>*\<close> is the product of the words, which wraps around where the
  product of the signed values leaves the range of \<^verbatim>\<open>int\<close>.
\<close>

type_synonym c_int = "32 word"
type_synonym c_uint = "32 word"

definition INT_MIN :: int where
  "INT_MIN = - 2147483648"

definition INT_MAX :: int where
  "INT_MAX = 2147483647"

definition c_div :: "c_int \<Rightarrow> c_int \<Rightarrow> c_int" where
  "c_div a b = word_of_int (sint a sdiv sint b)"

definition c_mod :: "c_int \<Rightarrow> c_int \<Rightarrow> c_int" where
  "c_mod a b = word_of_int (sint a smod sint b)"

definition c_mul :: "c_int \<Rightarrow> c_int \<Rightarrow> c_int" where
  "c_mul a b = a * b"

subsection \<open>The state the functions run in\<close>

text \<open>
  \<^verbatim>\<open>struct timespec\<close> of \<^verbatim>\<open>time.h\<close>: \<^verbatim>\<open>time_t tv_sec; long tv_nsec;\<close>. Both field types are
  signed and at least as wide as \<^verbatim>\<open>int\<close>, so the conversion of an \<^verbatim>\<open>int\<close> on assignment
  keeps its value: a field holds the signed value of the \<^verbatim>\<open>int\<close> assigned to it.
\<close>

record timespec =
  tv_sec :: int
  tv_nsec :: int

text \<open>The interval a \<^verbatim>\<open>timespec\<close> denotes, in nanoseconds.\<close>

definition timespec_ns :: "timespec \<Rightarrow> int" where
  "timespec_ns ts = tv_sec ts * 1000000000 + tv_nsec ts"

text \<open>
  A pointer (\<^verbatim>\<open>uv_loop_t*\<close>, \<^verbatim>\<open>uv_fs_event_t*\<close>) is an address. \<open>loops\<close> is the memory
  that holds the \<^verbatim>\<open>uv_loop_t\<close> objects; the type is declared in \<^verbatim>\<open>uv.h\<close>, so it is the
  parameter \<open>'loop\<close>. \<open>errno\<close> is the C library's error variable, and \<open>host\<close>
  is whatever state the WASI host keeps outside the program (its clock, above all).
\<close>

type_synonym addr = nat

record ('loop, 'host) world =
  loops :: "addr \<Rightarrow> 'loop option"
  errno :: c_int
  host :: 'host

text \<open>
  \<^verbatim>\<open>nanosleep\<close> belongs to the host, not to this backend. The functions that call it take
  it as a parameter: given the request and the world it returns its \<^verbatim>\<open>int\<close> result and
  the world it leaves.
\<close>

type_synonym ('loop, 'host) nanosleep_fn =
  "timespec \<Rightarrow> ('loop, 'host) world \<Rightarrow> c_int \<times> ('loop, 'host) world"

subsection \<open>The functions\<close>

text \<open>\<^verbatim>\<open>int uv__platform_loop_init(uv_loop_t* loop) { return 0; }\<close>\<close>

definition uv__platform_loop_init ::
  "addr \<Rightarrow> ('loop, 'host) world \<Rightarrow> c_int \<times> ('loop, 'host) world" where
  "uv__platform_loop_init loop w = (0, w)"

text \<open>\<^verbatim>\<open>void uv__platform_loop_delete(uv_loop_t* loop) { }\<close>\<close>

definition uv__platform_loop_delete ::
  "addr \<Rightarrow> ('loop, 'host) world \<Rightarrow> ('loop, 'host) world" where
  "uv__platform_loop_delete loop w = w"

text \<open>
  The \<^verbatim>\<open>timespec\<close> that \<^verbatim>\<open>uv__io_poll\<close> fills in from its timeout:
  \<^verbatim>\<open>ts.tv_sec = timeout / 1000; ts.tv_nsec = (timeout % 1000) * 1000000;\<close>
\<close>

definition poll_timespec :: "c_int \<Rightarrow> timespec" where
  "poll_timespec timeout =
     \<lparr> tv_sec = sint (c_div timeout 1000),
       tv_nsec = sint (c_mul (c_mod timeout 1000) 1000000) \<rparr>"

text \<open>
  \<^verbatim>\<open>void uv__io_poll(uv_loop_t* loop, int timeout)\<close>: when the timeout is positive, one
  call of \<^verbatim>\<open>nanosleep(&ts, NULL)\<close> whose result is dropped; nothing otherwise.
\<close>

definition uv__io_poll ::
  "('loop, 'host) nanosleep_fn \<Rightarrow> addr \<Rightarrow> c_int \<Rightarrow> ('loop, 'host) world \<Rightarrow> ('loop, 'host) world" where
  "uv__io_poll nanosleep loop timeout w =
     (if 0 < sint timeout then snd (nanosleep (poll_timespec timeout) w) else w)"

text \<open>\<^verbatim>\<open>int uv__io_check_fd(uv_loop_t* loop, int fd) { return 0; }\<close>\<close>

definition uv__io_check_fd ::
  "addr \<Rightarrow> c_int \<Rightarrow> ('loop, 'host) world \<Rightarrow> c_int \<times> ('loop, 'host) world" where
  "uv__io_check_fd loop fd w = (0, w)"

text \<open>\<^verbatim>\<open>void uv__platform_invalidate_fd(uv_loop_t* loop, int fd) { }\<close>\<close>

definition uv__platform_invalidate_fd ::
  "addr \<Rightarrow> c_int \<Rightarrow> ('loop, 'host) world \<Rightarrow> ('loop, 'host) world" where
  "uv__platform_invalidate_fd loop fd w = w"

text \<open>
  \<^verbatim>\<open>int uv__io_fork(uv_loop_t* loop) { errno = ENOSYS; return -ENOSYS; }\<close>
  \<^verbatim>\<open>ENOSYS\<close> is a macro of \<^verbatim>\<open>errno.h\<close>; the function takes its value as the first
  argument.
\<close>

definition uv__io_fork ::
  "c_int \<Rightarrow> addr \<Rightarrow> ('loop, 'host) world \<Rightarrow> c_int \<times> ('loop, 'host) world" where
  "uv__io_fork ENOSYS loop w = (- ENOSYS, w\<lparr>errno := ENOSYS\<rparr>)"

text \<open>\<^verbatim>\<open>void uv__fs_event_close(uv_fs_event_t* handle) { }\<close>\<close>

definition uv__fs_event_close ::
  "addr \<Rightarrow> ('loop, 'host) world \<Rightarrow> ('loop, 'host) world" where
  "uv__fs_event_close handle w = w"

text \<open>
  \<^verbatim>\<open>unsigned int if_nametoindex(const char *ifname) { return 0; }\<close>
  The name is the string the pointer refers to; the function never reads it.
\<close>

definition if_nametoindex ::
  "string \<Rightarrow> ('loop, 'host) world \<Rightarrow> c_uint \<times> ('loop, 'host) world" where
  "if_nametoindex ifname w = (0, w)"

text \<open>
  \<^verbatim>\<open>char** uv_setup_args(int argc, char** argv) { return argv; }\<close>
  The argument vector is the list of the strings \<^verbatim>\<open>argv\<close> points to.
\<close>

definition uv_setup_args ::
  "c_int \<Rightarrow> string list \<Rightarrow> ('loop, 'host) world \<Rightarrow> string list \<times> ('loop, 'host) world" where
  "uv_setup_args argc argv w = (argv, w)"

subsection \<open>A host for the examples\<close>

text \<open>
  The simplest host: its state is a clock in nanoseconds, and \<^verbatim>\<open>nanosleep\<close> rejects a
  malformed request with \<open>-1\<close> and otherwise advances the clock by the interval asked
  for and returns \<open>0\<close>.
\<close>

definition clock_nanosleep :: "(unit, int) nanosleep_fn" where
  "clock_nanosleep ts w =
     (if tv_sec ts < 0 \<or> tv_nsec ts < 0 \<or> 999999999 < tv_nsec ts then (- 1, w)
      else (0, w\<lparr>host := host w + timespec_ns ts\<rparr>))"

text \<open>
  A host on which a signal arrives 20 ms into every sleep: a request of at most 20 ms
  runs to its end and \<^verbatim>\<open>nanosleep\<close> returns \<open>0\<close>; a longer one is cut short after
  20 ms and \<^verbatim>\<open>nanosleep\<close> returns \<open>-1\<close> with \<open>errno\<close> set to \<^verbatim>\<open>EINTR\<close> (the first
  argument), as POSIX has it.
\<close>

definition interrupted_nanosleep :: "c_int \<Rightarrow> (unit, int) nanosleep_fn" where
  "interrupted_nanosleep EINTR ts w =
     (if tv_sec ts < 0 \<or> tv_nsec ts < 0 \<or> 999999999 < tv_nsec ts then (- 1, w)
      else if timespec_ns ts \<le> 20000000 then (0, w\<lparr>host := host w + timespec_ns ts\<rparr>)
      else (- 1, w\<lparr>errno := EINTR, host := host w + 20000000\<rparr>))"

text \<open>A world with one loop, at address 1, the clock at 0 and no error recorded.\<close>

definition world0 :: "(unit, int) world" where
  "world0 = \<lparr> loops = (\<lambda>a. if a = 1 then Some () else None), errno = 0, host = 0 \<rparr>"

section \<open>Arithmetic of the timeout\<close>

lemma sint_c_int_range: "- 2147483648 \<le> sint (t :: c_int) \<and> sint t < 2147483648"
  using sint_ge [of t] sint_lt [of t] by simp

lemma sint_word_of_int_c_int:
  "- 2147483648 \<le> k \<Longrightarrow> k < 2147483648 \<Longrightarrow> sint (word_of_int k :: c_int) = k"
  by (simp add: signed_of_int signed_take_bit_int_eq_self)

lemma sint_c_div_1000:
  assumes "0 < sint t"
  shows "sint (c_div t 1000) = sint t div 1000"
proof -
  have eq: "sint t sdiv 1000 = sint t div 1000"
    using assms by (simp add: signed_divide_int_def sgn_if)
  have "0 \<le> sint t div 1000" "sint t div 1000 < 2147483648"
    using assms sint_c_int_range [of t] by simp_all
  then show ?thesis
    by (simp add: c_div_def eq sint_word_of_int_c_int)
qed

lemma sint_c_mod_1000:
  assumes "0 < sint t"
  shows "sint (c_mod t 1000) = sint t mod 1000"
proof -
  have eq: "sint t smod 1000 = sint t mod 1000"
    using assms by (simp add: signed_modulo_int_def sgn_if)
  have "0 \<le> sint t mod 1000" "sint t mod 1000 < 1000"
    by simp_all
  then show ?thesis
    by (simp add: c_mod_def eq sint_word_of_int_c_int)
qed

lemma c_mul_million_exact:
  assumes "0 \<le> sint a" "sint a < 1000"
  shows "sint (c_mul a 1000000) = sint a * 1000000"
proof -
  have "(word_of_int (sint a * 1000000) :: c_int) = a * 1000000"
    by simp
  then have "sint (c_mul a 1000000) = sint (word_of_int (sint a * 1000000) :: c_int)"
    by (simp only: c_mul_def)
  also have "\<dots> = sint a * 1000000"
    using assms by (intro sint_word_of_int_c_int) simp_all
  finally show ?thesis .
qed

lemma sint_uminus_pos:
  assumes "0 < sint (e :: c_int)"
  shows "sint (- e) = - sint e"
proof -
  have "(word_of_int (- sint e) :: c_int) = - e"
    by simp
  then have "sint (- e) = sint (word_of_int (- sint e) :: c_int)"
    by simp
  also have "\<dots> = - sint e"
    using assms sint_c_int_range [of e] by (intro sint_word_of_int_c_int) simp_all
  finally show ?thesis .
qed

text \<open>The two fields of the request, for a positive timeout.\<close>

lemma tv_sec_poll_timespec:
  "0 < sint t \<Longrightarrow> tv_sec (poll_timespec t) = sint t div 1000"
  by (simp add: poll_timespec_def sint_c_div_1000)

lemma tv_nsec_poll_timespec:
  assumes "0 < sint t"
  shows "tv_nsec (poll_timespec t) = sint t mod 1000 * 1000000"
proof -
  have m: "sint (c_mod t 1000) = sint t mod 1000"
    using assms by (rule sint_c_mod_1000)
  have "sint (c_mul (c_mod t 1000) 1000000) = sint (c_mod t 1000) * 1000000"
    by (rule c_mul_million_exact) (simp_all add: m)
  then show ?thesis
    by (simp add: poll_timespec_def m)
qed

lemma ms_as_sec_and_nsec:
  "(x::int) * 1000000 = x div 1000 * 1000000000 + x mod 1000 * 1000000"
proof -
  have "x * 1000000 = (x div 1000 * 1000 + x mod 1000) * 1000000"
    by simp
  also have "\<dots> = x div 1000 * (1000 * 1000000) + x mod 1000 * 1000000"
    by (simp only: distrib_right mult.assoc)
  finally show ?thesis by simp
qed

lemma timespec_ns_poll_timespec:
  assumes "0 < sint t"
  shows "timespec_ns (poll_timespec t) = sint t * 1000000"
  using assms ms_as_sec_and_nsec [of "sint t"]
  by (simp add: timespec_ns_def tv_sec_poll_timespec tv_nsec_poll_timespec)

text \<open>
  What a poll does to the host's clock, for a host that blocks at least as long as a
  well-formed request asks.
\<close>

lemma uv__io_poll_clock:
  fixes nanosleep :: "('loop, 'host) nanosleep_fn"
    and clock :: "('loop, 'host) world \<Rightarrow> int"
  assumes host: "\<And>ts w. 0 \<le> tv_sec ts \<Longrightarrow> 0 \<le> tv_nsec ts \<Longrightarrow> tv_nsec ts < 1000000000 \<Longrightarrow>
      clock w + timespec_ns ts \<le> clock (snd (nanosleep ts w))"
    and t: "0 \<le> sint t"
  shows "clock w + sint t * 1000000 \<le> clock (uv__io_poll nanosleep loop t w)"
proof (cases "0 < sint t")
  case True
  have "0 \<le> tv_sec (poll_timespec t)"
    using True by (simp add: tv_sec_poll_timespec)
  moreover have "0 \<le> tv_nsec (poll_timespec t)" "tv_nsec (poll_timespec t) < 1000000000"
    using True by (simp_all add: tv_nsec_poll_timespec)
  ultimately have "clock w + timespec_ns (poll_timespec t)
      \<le> clock (snd (nanosleep (poll_timespec t) w))"
    by (rule host)
  then show ?thesis
    using True by (simp add: uv__io_poll_def timespec_ns_poll_timespec)
next
  case False
  with t have "sint t = 0" by simp
  then show ?thesis
    by (simp add: uv__io_poll_def)
qed

lemma uv__io_poll_no_wait: "sint t \<le> 0 \<Longrightarrow> uv__io_poll nanosleep loop t w = w"
  by (simp add: uv__io_poll_def)

lemma clock_nanosleep_blocks:
  "0 \<le> tv_sec ts \<Longrightarrow> 0 \<le> tv_nsec ts \<Longrightarrow> tv_nsec ts < 1000000000 \<Longrightarrow>
     host w + timespec_ns ts \<le> host (snd (clock_nanosleep ts w))"
  by (simp add: clock_nanosleep_def)


section \<open>The readiness poller shim\<close>

text \<open>
  C1. For every non-negative timeout \<open>t\<close>, \<^verbatim>\<open>uv__io_poll\<close> returns no earlier than \<open>t\<close>
  milliseconds after it was called, and for every \<open>t \<le> 0\<close> it returns at once without
  sleeping. As stated, for every call, this fails: the shim calls \<^verbatim>\<open>nanosleep\<close> once,
  drops its result and never sleeps the rest, so where the host cuts the sleep short
  the poll returns early. On the host that is interrupted after 20 ms, a poll with a
  timeout of 200 ms is back after 20 ms.
\<close>

theorem uv__io_poll_interrupted_returns_early:
  "host (uv__io_poll (interrupted_nanosleep 27) 1 200 world0) = host world0 + 20000000
   \<and> \<not> host world0 + sint (200 :: c_int) * 1000000
        \<le> host (uv__io_poll (interrupted_nanosleep 27) 1 200 world0)"
  by (simp add: uv__io_poll_def poll_timespec_def c_div_def c_mod_def c_mul_def
      signed_divide_int_def signed_modulo_int_def interrupted_nanosleep_def timespec_ns_def
      world0_def)

text \<open>
  C1, amended. For every non-negative timeout \<open>t\<close>, \<^verbatim>\<open>uv__io_poll\<close> returns no earlier
  than \<open>t\<close> milliseconds after it was called, provided the one sleep it asks for is not
  cut short: the host, asked in this world for a well-formed interval of \<open>t\<close>
  milliseconds (seconds not negative, nanoseconds below \<open>10^9\<close>), blocks at least
  that long. Time is what the host's clock reads, in nanoseconds. Nothing is asked of
  the host in other worlds or for other intervals. For every \<open>t \<le> 0\<close> the poll
  returns at once: the host is not called and the world is left as it was.
\<close>

theorem uv__io_poll_uninterrupted_returns_no_earlier:
  fixes nanosleep :: "('loop, 'host) nanosleep_fn"
    and clock :: "('loop, 'host) world \<Rightarrow> int"
  assumes "\<And>ts. 0 < sint t \<Longrightarrow> 0 \<le> tv_sec ts \<Longrightarrow> 0 \<le> tv_nsec ts \<Longrightarrow>
      tv_nsec ts < 1000000000 \<Longrightarrow> timespec_ns ts = sint t * 1000000 \<Longrightarrow>
      clock w + timespec_ns ts \<le> clock (snd (nanosleep ts w))"
  shows "(0 \<le> sint t \<longrightarrow> clock w + sint t * 1000000 \<le> clock (uv__io_poll nanosleep loop t w))
    \<and> (sint t \<le> 0 \<longrightarrow> uv__io_poll nanosleep loop t w = w)"
proof (intro conjI impI)
  assume t: "0 \<le> sint t"
  show "clock w + sint t * 1000000 \<le> clock (uv__io_poll nanosleep loop t w)"
  proof (cases "0 < sint t")
    case True
    have "0 \<le> tv_sec (poll_timespec t)"
      using True by (simp add: tv_sec_poll_timespec)
    moreover have "0 \<le> tv_nsec (poll_timespec t)" "tv_nsec (poll_timespec t) < 1000000000"
      using True by (simp_all add: tv_nsec_poll_timespec)
    moreover have "timespec_ns (poll_timespec t) = sint t * 1000000"
      using True by (rule timespec_ns_poll_timespec)
    ultimately have "clock w + timespec_ns (poll_timespec t)
        \<le> clock (snd (nanosleep (poll_timespec t) w))"
      using True by (intro assms)
    then show ?thesis
      using True by (simp add: uv__io_poll_def timespec_ns_poll_timespec)
  next
    case False
    with t have "sint t = 0" by simp
    then show ?thesis
      by (simp add: uv__io_poll_def)
  qed
next
  assume "sint t \<le> 0"
  then show "uv__io_poll nanosleep loop t w = w"
    by (rule uv__io_poll_no_wait)
qed

theorem uv__io_poll_uninterrupted_returns_no_earlier_witness:
  "host world0 + 50 * 1000000 \<le> host (uv__io_poll clock_nanosleep 1 50 world0)
   \<and> host (uv__io_poll clock_nanosleep 1 50 world0) = 50000000
   \<and> host world0 + 10 * 1000000 \<le> host (uv__io_poll (interrupted_nanosleep 27) 1 10 world0)
   \<and> uv__io_poll (interrupted_nanosleep 27) 1 0 world0 = world0
   \<and> uv__io_poll (interrupted_nanosleep 27) 1 (- 1) world0 = world0"
proof -
  have ideal: "host world0 + timespec_ns ts \<le> host (snd (clock_nanosleep ts world0))"
    if "0 < sint (50 :: c_int)" "0 \<le> tv_sec ts" "0 \<le> tv_nsec ts" "tv_nsec ts < 1000000000"
      "timespec_ns ts = sint (50 :: c_int) * 1000000" for ts
    using that by (simp add: clock_nanosleep_def)
  have short: "host world0 + timespec_ns ts
      \<le> host (snd (interrupted_nanosleep 27 ts world0))"
    if "0 < sint (t :: c_int)" "0 \<le> tv_sec ts" "0 \<le> tv_nsec ts" "tv_nsec ts < 1000000000"
      "timespec_ns ts = sint t * 1000000" "sint t \<le> 10" for ts t
    using that by (simp add: interrupted_nanosleep_def)
  have s10: "sint (10 :: c_int) \<le> 10" and s0: "sint (0 :: c_int) \<le> 10"
    and sm: "sint (- 1 :: c_int) \<le> 10"
    by simp_all
  note p50 = uv__io_poll_uninterrupted_returns_no_earlier
    [where clock = host and nanosleep = clock_nanosleep and w = world0 and loop = 1
      and t = 50, OF ideal]
  note p10 = uv__io_poll_uninterrupted_returns_no_earlier
    [where clock = host and nanosleep = "interrupted_nanosleep 27" and w = world0
      and loop = 1 and t = 10, OF short [OF _ _ _ _ _ s10]]
  note p0 = uv__io_poll_uninterrupted_returns_no_earlier
    [where clock = host and nanosleep = "interrupted_nanosleep 27" and w = world0
      and loop = 1 and t = 0, OF short [OF _ _ _ _ _ s0]]
  note pm = uv__io_poll_uninterrupted_returns_no_earlier
    [where clock = host and nanosleep = "interrupted_nanosleep 27" and w = world0
      and loop = 1 and t = "- 1", OF short [OF _ _ _ _ _ sm]]
  have "host (uv__io_poll clock_nanosleep 1 50 world0) = 50000000"
    by (simp add: uv__io_poll_def poll_timespec_def c_div_def c_mod_def c_mul_def
        signed_divide_int_def signed_modulo_int_def clock_nanosleep_def timespec_ns_def
        world0_def)
  with p50 p10 p0 pm show ?thesis
    by simp
qed

text \<open>
  C2. For every positive timeout \<open>t\<close> (milliseconds) the shim splits \<open>t\<close> by division
  and modulo into whole seconds \<open>s = t / 1000\<close> and nanoseconds
  \<open>n = (t % 1000) * 1000000\<close>; nothing is lost, \<open>s * 1000 + n / 1000000 = t\<close>, and the
  interval it asks \<^verbatim>\<open>nanosleep\<close> for is exactly \<open>t\<close> milliseconds.
\<close>

theorem uv__io_poll_request_lossless:
  assumes "0 < sint t"
  shows "uv__io_poll nanosleep loop t w = snd (nanosleep (poll_timespec t) w)
    \<and> tv_sec (poll_timespec t) = sint t div 1000
    \<and> tv_nsec (poll_timespec t) = sint t mod 1000 * 1000000
    \<and> tv_sec (poll_timespec t) * 1000 + tv_nsec (poll_timespec t) div 1000000 = sint t
    \<and> timespec_ns (poll_timespec t) = sint t * 1000000"
proof (intro conjI)
  show "uv__io_poll nanosleep loop t w = snd (nanosleep (poll_timespec t) w)"
    using assms by (simp add: uv__io_poll_def)
  show "tv_sec (poll_timespec t) = sint t div 1000"
    using assms by (rule tv_sec_poll_timespec)
  show "tv_nsec (poll_timespec t) = sint t mod 1000 * 1000000"
    using assms by (rule tv_nsec_poll_timespec)
  show "tv_sec (poll_timespec t) * 1000 + tv_nsec (poll_timespec t) div 1000000 = sint t"
    using assms by (simp add: tv_sec_poll_timespec tv_nsec_poll_timespec)
  show "timespec_ns (poll_timespec t) = sint t * 1000000"
    using assms by (rule timespec_ns_poll_timespec)
qed

theorem uv__io_poll_request_lossless_witness:
  "0 < sint (1500 :: c_int)
   \<and> uv__io_poll clock_nanosleep 1 1500 world0 = snd (clock_nanosleep (poll_timespec 1500) world0)
   \<and> tv_sec (poll_timespec 1500) = 1
   \<and> tv_nsec (poll_timespec 1500) = 500000000
   \<and> tv_sec (poll_timespec 1500) * 1000 + tv_nsec (poll_timespec 1500) div 1000000 = 1500
   \<and> timespec_ns (poll_timespec 1500) = 1500000000"
proof -
  have pos: "0 < sint (1500 :: c_int)"
    by simp
  show ?thesis
    using pos uv__io_poll_request_lossless [OF pos, of clock_nanosleep 1 world0]
    by simp
qed

text \<open>
  C10. For every positive \<^verbatim>\<open>int\<close> timeout the \<^verbatim>\<open>timespec\<close> the shim builds is well formed:
  \<open>tv_sec = timeout / 1000\<close> is not negative, \<open>tv_nsec = (timeout % 1000) * 1000000\<close>
  lies in \<open>0 \<le> tv_nsec < 1000000000\<close>, and the multiplication cannot leave the range
  of \<^verbatim>\<open>int\<close>: the product of the signed values is at most \<open>999000000\<close>, below
  \<open>INT_MAX\<close>, so the product of the words is that very value.
\<close>

theorem poll_timespec_well_formed:
  assumes "0 < sint t"
  shows "tv_sec (poll_timespec t) = sint t div 1000
    \<and> 0 \<le> tv_sec (poll_timespec t)
    \<and> tv_nsec (poll_timespec t) = sint t mod 1000 * 1000000
    \<and> 0 \<le> tv_nsec (poll_timespec t)
    \<and> tv_nsec (poll_timespec t) < 1000000000
    \<and> INT_MIN \<le> sint (c_mod t 1000) * 1000000
    \<and> sint (c_mod t 1000) * 1000000 \<le> 999000000
    \<and> 999000000 \<le> INT_MAX
    \<and> sint (c_mul (c_mod t 1000) 1000000) = sint (c_mod t 1000) * 1000000"
proof -
  have m: "sint (c_mod t 1000) = sint t mod 1000"
    using assms by (rule sint_c_mod_1000)
  have lo: "0 \<le> sint t mod 1000" and hi: "sint t mod 1000 \<le> 999"
    by simp_all
  have sec: "tv_sec (poll_timespec t) = sint t div 1000"
    using assms by (rule tv_sec_poll_timespec)
  have nsec: "tv_nsec (poll_timespec t) = sint t mod 1000 * 1000000"
    using assms by (rule tv_nsec_poll_timespec)
  have "0 \<le> tv_sec (poll_timespec t)"
    using assms by (simp add: sec)
  moreover have "0 \<le> tv_nsec (poll_timespec t)" "tv_nsec (poll_timespec t) < 1000000000"
    using lo hi by (simp_all add: nsec)
  moreover have "INT_MIN \<le> sint (c_mod t 1000) * 1000000"
    "sint (c_mod t 1000) * 1000000 \<le> 999000000"
    using lo hi by (simp_all add: m INT_MIN_def)
  moreover have "999000000 \<le> INT_MAX"
    by (simp add: INT_MAX_def)
  moreover have "sint (c_mul (c_mod t 1000) 1000000) = sint (c_mod t 1000) * 1000000"
    by (rule c_mul_million_exact) (simp_all add: m)
  ultimately show ?thesis
    using sec nsec by simp
qed

theorem poll_timespec_well_formed_witness:
  "0 < sint (2147483647 :: c_int)
   \<and> tv_sec (poll_timespec 2147483647) = 2147483
   \<and> tv_nsec (poll_timespec 2147483647) = 647000000
   \<and> sint (c_mod 2147483647 1000) * 1000000 = 647000000
   \<and> sint (c_mul (c_mod 2147483647 1000) 1000000) = 647000000"
proof -
  have pos: "0 < sint (2147483647 :: c_int)"
    by simp
  have m: "sint (c_mod 2147483647 1000) = 647"
    by (simp add: c_mod_def signed_modulo_int_def)
  show ?thesis
    using pos m poll_timespec_well_formed [OF pos]
    by simp
qed

section \<open>Process duplication\<close>

text \<open>
  C3. For every loop, \<^verbatim>\<open>uv__io_fork\<close> returns the same "not supported" error code: it is
  \<open>-ENOSYS\<close> whatever the loop and the world are, it is negative and so never the
  success value \<open>0\<close>. The C standard makes the macros of \<^verbatim>\<open>errno.h\<close> positive
  \<^verbatim>\<open>int\<close> constants, which is the one thing assumed of \<^verbatim>\<open>ENOSYS\<close>.
\<close>

theorem uv__io_fork_not_supported:
  assumes "0 < sint ENOSYS"
  shows "fst (uv__io_fork ENOSYS loop w) = - ENOSYS
    \<and> sint (fst (uv__io_fork ENOSYS loop w)) = - sint ENOSYS
    \<and> sint (fst (uv__io_fork ENOSYS loop w)) < 0
    \<and> fst (uv__io_fork ENOSYS loop w) \<noteq> 0
    \<and> fst (uv__io_fork ENOSYS loop w) = fst (uv__io_fork ENOSYS loop' w')"
proof -
  have neg: "sint (- ENOSYS) = - sint ENOSYS"
    using assms by (rule sint_uminus_pos)
  then have "sint (- ENOSYS) < 0"
    using assms by simp
  moreover from this have "- ENOSYS \<noteq> 0"
    by auto
  ultimately show ?thesis
    using neg by (simp add: uv__io_fork_def)
qed

theorem uv__io_fork_not_supported_witness:
  "0 < sint (52 :: c_int)
   \<and> fst (uv__io_fork 52 1 world0) = - 52
   \<and> sint (fst (uv__io_fork 52 1 world0)) = - 52
   \<and> fst (uv__io_fork 52 1 world0) \<noteq> 0
   \<and> fst (uv__io_fork 52 1 world0) = fst (uv__io_fork 52 7 (world0\<lparr>errno := 9\<rparr>))"
proof -
  have pos: "0 < sint (52 :: c_int)"
    by simp
  show ?thesis
    using pos uv__io_fork_not_supported [OF pos, of 1 world0 7 "world0\<lparr>errno := 9\<rparr>"]
    by auto
qed

text \<open>
  C9. \<^verbatim>\<open>uv__io_fork\<close> on a freshly initialised loop returns the unsupported error and
  leaves the loop as it was: the memory of the loops and the host are untouched, only
  \<open>errno\<close> is set. The loop stays usable: a poll after it does what a poll does, it
  returns at once for a timeout \<open>t \<le> 0\<close> and no earlier than \<open>t\<close> milliseconds
  otherwise (on a host whose \<^verbatim>\<open>nanosleep\<close> blocks at least as long as asked).
\<close>

theorem uv__io_fork_leaves_loop_usable:
  fixes nanosleep :: "('loop, 'host) nanosleep_fn"
    and clock :: "('loop, 'host) world \<Rightarrow> int"
  assumes "0 < sint ENOSYS"
    and "\<And>ts w. 0 \<le> tv_sec ts \<Longrightarrow> 0 \<le> tv_nsec ts \<Longrightarrow> tv_nsec ts < 1000000000 \<Longrightarrow>
      clock w + timespec_ns ts \<le> clock (snd (nanosleep ts w))"
  shows "fst (uv__platform_loop_init loop w) = 0
    \<and> (let w1 = snd (uv__platform_loop_init loop w);
            r = fst (uv__io_fork ENOSYS loop w1);
            w2 = snd (uv__io_fork ENOSYS loop w1)
        in r = - ENOSYS \<and> sint r < 0
          \<and> loops w2 = loops w1 \<and> host w2 = host w1 \<and> w2 = w1\<lparr>errno := ENOSYS\<rparr>
          \<and> (0 \<le> sint t \<longrightarrow>
                clock w2 + sint t * 1000000 \<le> clock (uv__io_poll nanosleep loop t w2))
          \<and> (sint t \<le> 0 \<longrightarrow> uv__io_poll nanosleep loop t w2 = w2))"
proof -
  define w2 where "w2 = w\<lparr>errno := ENOSYS\<rparr>"
  have "sint (- ENOSYS) < 0"
    using assms(1) by (simp add: sint_uminus_pos)
  moreover have "0 \<le> sint t \<longrightarrow>
      clock w2 + sint t * 1000000 \<le> clock (uv__io_poll nanosleep loop t w2)"
    using assms(2) by (auto intro: uv__io_poll_clock)
  moreover have "sint t \<le> 0 \<longrightarrow> uv__io_poll nanosleep loop t w2 = w2"
    by (simp add: uv__io_poll_no_wait)
  ultimately show ?thesis
    by (simp add: uv__platform_loop_init_def uv__io_fork_def w2_def)
qed

theorem uv__io_fork_leaves_loop_usable_witness:
  "0 < sint (52 :: c_int)
   \<and> fst (uv__platform_loop_init 1 world0) = 0
   \<and> fst (uv__io_fork 52 1 (snd (uv__platform_loop_init 1 world0))) = - 52
   \<and> snd (uv__io_fork 52 1 (snd (uv__platform_loop_init 1 world0))) = world0\<lparr>errno := 52\<rparr>
   \<and> host (world0\<lparr>errno := 52\<rparr>) + 50 * 1000000
        \<le> host (uv__io_poll clock_nanosleep 1 50 (world0\<lparr>errno := 52\<rparr>))
   \<and> uv__io_poll clock_nanosleep 1 0 (world0\<lparr>errno := 52\<rparr>) = world0\<lparr>errno := 52\<rparr>"
proof -
  have pos: "0 < sint (52 :: c_int)"
    by simp
  note fork = uv__io_fork_leaves_loop_usable
    [where clock = host and nanosleep = clock_nanosleep and w = world0 and loop = 1,
     OF pos clock_nanosleep_blocks]
  show ?thesis
    using pos fork [of 50] fork [of 0]
    by (simp add: uv__platform_loop_init_def uv__io_fork_def Let_def)
qed

section \<open>Loop lifecycle and descriptors\<close>

text \<open>
  C7. For every loop, \<^verbatim>\<open>uv__platform_loop_init\<close> succeeds: it returns \<open>0\<close>, whatever
  the pointer and the world, and there is no other result. It leaves the world as it
  was.
\<close>

theorem uv__platform_loop_init_succeeds:
  "uv__platform_loop_init loop w = (0, w)"
  by (simp add: uv__platform_loop_init_def)

text \<open>
  C4. For every loop and every \<^verbatim>\<open>int\<close> descriptor \<open>fd\<close>, negative and otherwise
  invalid ones included, \<^verbatim>\<open>uv__io_check_fd\<close> returns the success value \<open>0\<close>.
\<close>

theorem uv__io_check_fd_succeeds:
  "fst (uv__io_check_fd loop fd w) = 0 \<and> snd (uv__io_check_fd loop fd w) = w"
  by (simp add: uv__io_check_fd_def)

text \<open>
  C8. For every loop and descriptor, \<^verbatim>\<open>uv__platform_invalidate_fd\<close> does nothing: the
  world after a call is the world before it. Calling it again changes nothing: the
  state after \<open>n \<ge> 1\<close> calls is the state after one call, and \<open>errno\<close> is never
  written, so no error is reported. The same holds for any sequence of calls, each
  with a loop and a descriptor of its own.
\<close>

theorem uv__platform_invalidate_fd_idempotent:
  "uv__platform_invalidate_fd loop fd w = w
   \<and> (1 \<le> n \<longrightarrow>
        (uv__platform_invalidate_fd loop fd ^^ n) w = uv__platform_invalidate_fd loop fd w)
   \<and> errno ((uv__platform_invalidate_fd loop fd ^^ n) w) = errno w
   \<and> fold (\<lambda>(l, d). uv__platform_invalidate_fd l d) calls w = w"
proof -
  have "(uv__platform_invalidate_fd loop fd ^^ n) w = w"
    by (induction n) (simp_all add: uv__platform_invalidate_fd_def)
  moreover have "fold (\<lambda>(l, d). uv__platform_invalidate_fd l d) calls w = w"
    by (induction calls) (simp_all add: uv__platform_invalidate_fd_def split: prod.splits)
  ultimately show ?thesis
    by (simp add: uv__platform_invalidate_fd_def)
qed

theorem uv__platform_invalidate_fd_idempotent_witness:
  "(1::nat) \<le> 3
   \<and> uv__platform_invalidate_fd 1 (- 1) world0 = world0
   \<and> (uv__platform_invalidate_fd 1 (- 1) ^^ 3) world0 = uv__platform_invalidate_fd 1 (- 1) world0
   \<and> errno ((uv__platform_invalidate_fd 1 (- 1) ^^ 3) world0) = errno world0
   \<and> fold (\<lambda>(l, d). uv__platform_invalidate_fd l d) [(1, 3), (1, - 1), (1, 3)] world0 = world0"
  using uv__platform_invalidate_fd_idempotent [of 1 "- 1" world0 3 "[(1, 3), (1, - 1), (1, 3)]"]
  by simp

section \<open>Interface lookup and argument setup\<close>

text \<open>
  C6. For every interface name, the empty string and names never seen before
  included, \<^verbatim>\<open>if_nametoindex\<close> returns the index \<open>0\<close>, which stands for "no such
  interface".
\<close>

theorem if_nametoindex_absent:
  "fst (if_nametoindex ifname w) = 0 \<and> fst (if_nametoindex [] w) = 0"
  by (simp add: if_nametoindex_def)

text \<open>
  C5. For every argument vector, of length 0, 1 or any other, \<^verbatim>\<open>uv_setup_args\<close> is the
  identity: it returns the vector it was given, as long as the input and equal to it
  element for element, whatever \<^verbatim>\<open>argc\<close> is.
\<close>

theorem uv_setup_args_identity:
  "fst (uv_setup_args argc argv w) = argv
   \<and> length (fst (uv_setup_args argc argv w)) = length argv
   \<and> (\<forall>i < length argv. fst (uv_setup_args argc argv w) ! i = argv ! i)"
  by (simp add: uv_setup_args_def)

theorem uv_setup_args_identity_witness:
  "fst (uv_setup_args 0 [] world0) = []
   \<and> fst (uv_setup_args 1 [''node''] world0) = [''node'']
   \<and> fst (uv_setup_args 3 [''node'', ''--version'', ''x''] world0) ! 0 = ''node''
   \<and> fst (uv_setup_args 3 [''node'', ''--version'', ''x''] world0) ! 1 = ''--version''
   \<and> fst (uv_setup_args 3 [''node'', ''--version'', ''x''] world0) ! 2 = ''x''
   \<and> length (fst (uv_setup_args 3 [''node'', ''--version'', ''x''] world0)) = 3"
  using uv_setup_args_identity [of 0 "[]" world0]
    uv_setup_args_identity [of 1 "[''node'']" world0]
    uv_setup_args_identity [of 3 "[''node'', ''--version'', ''x'']" world0]
  by simp

end
